theory Spec2Isabelle
  imports Complex_Main "HOL-Library.Sublist"
begin

section \<open>Credit-card recommendation pipeline: model of the orchestration code\<close>

text \<open>
  The development follows the Python sources \<^verbatim>\<open>src/models/state.py\<close>,
  \<^verbatim>\<open>src/nodes/card_managers.py\<close>, \<^verbatim>\<open>src/nodes/summary.py\<close>,
  \<^verbatim>\<open>src/nodes/error_handler.py\<close>, \<^verbatim>\<open>src/nodes/extractor.py\<close> and
  \<^verbatim>\<open>src/graph/credit_card_graph.py\<close>.

  Conventions of the model.
  \<^item> Python floats (fees and scores) are exact rationals: \<open>0.1\<close> is \<open>1/10\<close>.
  \<^item> A raised exception is the \<open>Inl\<close> branch of a sum; a \<open>try/except\<close> is a case split.
  \<^item> A Python \<open>dict\<close> whose iteration order is observed is an association list with
    distinct keys (\<open>dict_set\<close> keeps the position of an existing key).
  \<^item> In-place mutation of the graph state is explicit state passing.
  \<^item> Wall-clock values (timestamps, execution times) and fields that only carry display
    text (reasoning, best-for tags, summary text) are left out of the records.
\<close>

subsection \<open>Exceptions\<close>

datatype error =
    ValueError string
  | KeyError string
  | AttributeError string
  | ZeroDivisionError
  | Exception string

text \<open>\<open>str(e)\<close>: a \<open>KeyError\<close> prints the repr of its key, the others their message.\<close>

fun str_of_error :: "error \<Rightarrow> string" where
  "str_of_error (ValueError m) = m"
| "str_of_error (KeyError k) = [CHR 0x27] @ k @ [CHR 0x27]"
| "str_of_error (AttributeError m) = m"
| "str_of_error ZeroDivisionError = ''division by zero''"
| "str_of_error (Exception m) = m"

text \<open>The message of reading \<open>.goals\<close> on \<open>None\<close>.\<close>

definition no_goals_attribute :: string where
  "no_goals_attribute =
     [CHR 0x27] @ ''NoneType'' @ [CHR 0x27] @ '' object has no attribute '' @ [CHR 0x27]
       @ ''goals'' @ [CHR 0x27]"

text \<open>Sequencing of steps that may raise.\<close>

definition ebind :: "'e + 'a \<Rightarrow> ('a \<Rightarrow> 'e + 'b) \<Rightarrow> 'e + 'b" where
  "ebind m f = (case m of Inl e \<Rightarrow> Inl e | Inr x \<Rightarrow> f x)"

text \<open>True division \<open>a / b\<close>, which raises on a zero divisor.\<close>

definition py_div :: "rat \<Rightarrow> rat \<Rightarrow> error + rat" where
  "py_div a b = (if b = 0 then Inl ZeroDivisionError else Inr (a / b))"

text \<open>\<open>d[key]\<close> on a dict entry that may be absent.\<close>

definition subscript :: "string \<Rightarrow> 'a option \<Rightarrow> error + 'a" where
  "subscript key v = (case v of None \<Rightarrow> Inl (KeyError key) | Some x \<Rightarrow> Inr x)"

subsection \<open>Strings\<close>

text \<open>
  \<open>str.lower\<close> itself belongs to the runtime and folds every cased Unicode letter; the
  functions below take it as the parameter \<open>lw\<close>. \<open>ascii_lower\<close> is its restriction to
  ASCII text, for the sample inputs.
\<close>

definition ascii_lower_char :: "char \<Rightarrow> char" where
  "ascii_lower_char c =
     (let n = (of_char c :: nat) in if 65 \<le> n \<and> n \<le> 90 then char_of (n + 32) else c)"

definition ascii_lower :: "string \<Rightarrow> string" where
  "ascii_lower s = map ascii_lower_char s"

text \<open>\<open>needle in hay\<close> on strings: contiguous occurrence.\<close>

fun contains :: "string \<Rightarrow> string \<Rightarrow> bool" where
  "contains [] needle = (needle = [])"
| "contains (h # hs) needle = (take (length needle) (h # hs) = needle \<or> contains hs needle)"

subsection \<open>Insertion-ordered dictionaries\<close>

fun dict_get :: "('k \<times> 'v) list \<Rightarrow> 'k \<Rightarrow> 'v option" where
  "dict_get [] k = None"
| "dict_get ((k', v) # d) k = (if k' = k then Some v else dict_get d k)"

fun dict_set :: "('k \<times> 'v) list \<Rightarrow> 'k \<Rightarrow> 'v \<Rightarrow> ('k \<times> 'v) list" where
  "dict_set [] k v = [(k, v)]"
| "dict_set ((k', v') # d) k v = (if k' = k then (k, v) # d else (k', v') # dict_set d k v)"

subsection \<open>Stable descending sort\<close>

text \<open>
  \<open>xs.sort(key=f, reverse=True)\<close>: descending by key, and elements with equal keys keep
  their relative order (Python's sort is stable, also under \<open>reverse=True\<close>).
  The result of a stable sort is determined by these two properties, so inserting each
  element, last to first, before the first element whose key is not larger computes the
  same list.
\<close>

fun insert_desc :: "('a \<Rightarrow> rat) \<Rightarrow> 'a \<Rightarrow> 'a list \<Rightarrow> 'a list" where
  "insert_desc f x [] = [x]"
| "insert_desc f x (y # ys) = (if f y \<le> f x then x # y # ys else y # insert_desc f x ys)"

fun sort_desc :: "('a \<Rightarrow> rat) \<Rightarrow> 'a list \<Rightarrow> 'a list" where
  "sort_desc f [] = []"
| "sort_desc f (x # xs) = insert_desc f x (sort_desc f xs)"

subsection \<open>Data model (\<^verbatim>\<open>state.py\<close>, \<^verbatim>\<open>card_managers.py\<close>, \<^verbatim>\<open>summary.py\<close>)\<close>

record consent =
  personalization :: bool
  data_sharing :: bool
  credit_pull :: string

record request =
  intent :: string
  constraints :: "(string \<times> rat) list"
  goals :: "string list"
  priority :: "string list"
  spend_focus :: "(string \<times> rat) list"
  jurisdiction :: string
  risk_tolerance :: string
  must_have :: "string list"
  nice_to_have :: "string list"
  time_horizon :: string

text \<open>
  A catalog entry is a \<open>Dict[str, Any]\<close>: every key read with \<open>card[key]\<close> may be absent
  (\<open>None\<close>), and \<open>rc_text\<close> is the value of \<open>str(card)\<close>, the rendering of the whole
  dict by the Python runtime.
\<close>

record raw_card =
  rc_card_id :: "string option"
  rc_card_name :: "string option"
  rc_card_type :: "string option"
  rc_issuer :: "string option"
  rc_annual_fee :: "rat option"
  rc_rewards_rate :: "string option"
  rc_signup_bonus :: "string option"
  rc_credit_score_required :: "string option"
  rc_pros :: "string list option"
  rc_cons :: "string list option"
  rc_text :: string

record card_recommendation =
  card_id :: string
  card_name :: string
  card_type :: string
  issuer :: string
  annual_fee :: rat
  rewards_rate :: string
  signup_bonus :: string
  credit_score_required :: string
  pros :: "string list"
  cons :: "string list"
  match_score :: rat

record manager_result =
  mr_manager_type :: string
  recommendations :: "card_recommendation list"
  total_cards_found :: nat
  best_match :: "card_recommendation option"

record final_recommendation =
  fr_card_id :: string
  fr_card_name :: string
  fr_card_type :: string
  fr_issuer :: string
  fr_annual_fee :: rat
  fr_rewards_rate :: string
  fr_signup_bonus :: string
  fr_credit_score_required :: string
  fr_pros :: "string list"
  fr_cons :: "string list"
  overall_score :: rat
  manager_scores :: "(string \<times> rat) list"

record summary_result =
  total_cards_analyzed :: nat
  sr_final_recommendations :: "final_recommendation list"
  top_recommendation :: "final_recommendation option"
  confidence_score :: rat

record error_info =
  err_node :: string
  err_message :: string
  err_type :: "string option"

record error_handling_result =
  errors_handled :: nat
  user_friendly_message :: string
  recovery_actions :: "string list"
  can_continue :: bool
  fallback_recommendations :: "card_recommendation list"

record graph_state =
  session_id :: string
  user_query :: string
  locale_of :: string
  consent_of :: consent
  request_of :: "request option"
  fanout_plan :: "string list option"
  manager_results :: "(string \<times> manager_result) list"
  final_recommendations :: "summary_result option"
  telemetry_events :: "string list"
  errors :: "error_info list"
  current_node :: "string option"
  completed_nodes :: "string list"
  next_nodes :: "string list"
  error_handling :: "error_handling_result option"

subsection \<open>Routing (\<^verbatim>\<open>credit_card_graph.py\<close>)\<close>

text \<open>\<open>any(goal in goals for goal in tags)\<close>.\<close>

definition any_in :: "string list \<Rightarrow> string list \<Rightarrow> bool" where
  "any_in tags gs = list_ex (\<lambda>goal. goal \<in> set gs) tags"

definition determine_manager_categories :: "request \<Rightarrow> string list" where
  "determine_manager_categories req =
     (let gs = goals req;
          c0 = [];
          c1 = (if any_in [''miles'', ''travel'', ''airline'', ''hotel''] gs
                then c0 @ [''travel_manager''] else c0);
          c2 = (if any_in [''cashback'', ''cash'', ''rewards'', ''money''] gs
                then c1 @ [''cashback_manager''] else c1);
          c3 = (if any_in [''business'', ''corporate'', ''expense'', ''employee''] gs
                then c2 @ [''business_manager''] else c2);
          c4 = (if any_in [''student'', ''building_credit'', ''first'', ''college''] gs
                then c3 @ [''student_manager''] else c3)
      in if c4 = [] then c4 @ [''general_manager''] else c4)"

text \<open>
  The routing table as the specification words it: four tag groups in a fixed order, each
  naming one category; the plan lists the categories of the groups that share a tag with
  the goals, and is the default category alone when there is none.
\<close>

definition routing_table :: "(string list \<times> string) list" where
  "routing_table =
     [([''miles'', ''travel'', ''airline'', ''hotel''], ''travel_manager''),
      ([''cashback'', ''cash'', ''rewards'', ''money''], ''cashback_manager''),
      ([''business'', ''corporate'', ''expense'', ''employee''], ''business_manager''),
      ([''student'', ''building_credit'', ''first'', ''college''], ''student_manager'')]"

definition group_matches :: "string list \<Rightarrow> string list \<Rightarrow> bool" where
  "group_matches gs tags = (set tags \<inter> set gs \<noteq> {})"

definition plan_by_table :: "string list \<Rightarrow> string list" where
  "plan_by_table gs =
     (let hit = map snd (filter (\<lambda>row. group_matches gs (fst row)) routing_table)
      in if hit = [] then [''general_manager''] else hit)"

text \<open>
  The collaborators behind the tool interfaces, and the one behaviour of the state object
  that the sources leave to the runtime:
  \<^item> \<open>extract_request\<close> is \<^verbatim>\<open>_extract_structured_data\<close> followed by
    \<^verbatim>\<open>_validate_request\<close> (the text-understanding collaborator and its fallback);
  \<^item> \<open>search_cards\<close> is \<^verbatim>\<open>catalog_tool.search_cards\<close>;
  \<^item> \<open>policy_warnings\<close> is the warning list of \<^verbatim>\<open>validate_request_compliance\<close>;
  \<^item> \<open>str_lower\<close> is \<open>str.lower\<close>;
  \<^item> \<open>setattr_undeclared name\<close> is what assigning an attribute that \<^verbatim>\<open>GraphState\<close>
    does not declare does: \<open>None\<close> when the object accepts it, \<open>Some e\<close> when it raises.
\<close>

type_synonym search_criteria = "string list \<times> string \<times> (string \<times> rat) list \<times> string"

record env =
  extract_request :: "string \<Rightarrow> consent \<Rightarrow> string \<Rightarrow> error + request"
  search_cards :: "search_criteria \<Rightarrow> error + raw_card list"
  policy_warnings :: "request \<Rightarrow> consent \<Rightarrow> string list"
  str_lower :: "string \<Rightarrow> string"
  setattr_undeclared :: "string \<Rightarrow> error option"

definition record_error :: "string \<Rightarrow> string \<Rightarrow> string option \<Rightarrow> graph_state \<Rightarrow> graph_state" where
  "record_error node msg ty st =
     st\<lparr>errors := errors st @ [\<lparr>err_node = node, err_message = msg, err_type = ty\<rparr>]\<rparr>"

definition enter_node :: "string \<Rightarrow> graph_state \<Rightarrow> graph_state" where
  "enter_node node st =
     st\<lparr>current_node := Some node, completed_nodes := completed_nodes st @ [node]\<rparr>"

definition router_node :: "graph_state \<Rightarrow> graph_state" where
  "router_node st0 =
     (let st1 = enter_node ''router'' st0
      in case request_of st1 of
           None \<Rightarrow>
             (record_error ''router'' ''No parsed request available'' None st1)
               \<lparr>next_nodes := [''error_handler'']\<rparr>
         | Some req \<Rightarrow>
             (let manager_categories = determine_manager_categories req;
                  st2 = st1\<lparr>fanout_plan := Some manager_categories\<rparr>
              in if manager_categories \<noteq> [] then st2\<lparr>next_nodes := manager_categories\<rparr>
                 else st2\<lparr>next_nodes := [''general_manager'']\<rparr>))"

definition END :: string where
  "END = ''__end__''"

definition should_continue_to_router :: "graph_state \<Rightarrow> string" where
  "should_continue_to_router st =
     (if errors st \<noteq> [] then ''error_handler''
      else if request_of st \<noteq> None then ''router''
      else END)"

definition should_continue_to_managers :: "graph_state \<Rightarrow> string" where
  "should_continue_to_managers st =
     (if errors st \<noteq> [] then ''error_handler''
      else case fanout_plan st of
             Some (first # rest) \<Rightarrow> first
           | _ \<Rightarrow> ''general_manager'')"

definition create_initial_state :: "string \<Rightarrow> string \<Rightarrow> graph_state" where
  "create_initial_state sid query =
     \<lparr>session_id = sid, user_query = query, locale_of = ''en-SG'',
      consent_of = \<lparr>personalization = True, data_sharing = False, credit_pull = ''none''\<rparr>,
      request_of = None, fanout_plan = None, manager_results = [],
      final_recommendations = None, telemetry_events = [], errors = [],
      current_node = None, completed_nodes = [], next_nodes = [],
      error_handling = None\<rparr>"

subsection \<open>Extraction stage (\<^verbatim>\<open>extractor.py\<close>)\<close>

text \<open>
  \<^verbatim>\<open>extractor_node\<close> records the error in the state and re-raises: the \<open>Inl\<close> branch
  carries the exception together with the state as the \<open>except\<close> block left it.
\<close>

definition extractor_body :: "env \<Rightarrow> graph_state \<Rightarrow> error + graph_state" where
  "extractor_body env st =
     (if user_query st = [] then Inl (ValueError ''No user query provided'')
      else ebind (extract_request env (user_query st) (consent_of st) (locale_of st))
             (\<lambda>validated_request.
                Inr (st\<lparr>request_of := Some validated_request,
                        telemetry_events := telemetry_events st @ [''extractor.ok''],
                        completed_nodes := completed_nodes st @ [''extractor''],
                        next_nodes := [''router'']\<rparr>)))"

definition extractor_node :: "env \<Rightarrow> graph_state \<Rightarrow> (error \<times> graph_state) + graph_state" where
  "extractor_node env st0 =
     (let st1 = st0\<lparr>current_node := Some ''extractor''\<rparr>
      in case extractor_body env st1 of
           Inr st2 \<Rightarrow> Inr st2
         | Inl e \<Rightarrow>
             Inl (e, (record_error ''extractor'' (str_of_error e) None st1)
                       \<lparr>next_nodes := [''error_handler'']\<rparr>))"

subsection \<open>Category handlers (\<^verbatim>\<open>card_managers.py\<close>)\<close>

datatype manager_kind = Base | Travel | Cashback | Business | Student | General

fun manager_type :: "manager_kind \<Rightarrow> string" where
  "manager_type Base = ''base''"
| "manager_type Travel = ''travel_manager''"
| "manager_type Cashback = ''cashback_manager''"
| "manager_type Business = ''business_manager''"
| "manager_type Student = ''student_manager''"
| "manager_type General = ''general_manager''"

text \<open>
  \<^verbatim>\<open>analyze_request\<close>: the prompt reads \<open>request.goals\<close> before the \<open>try\<close>, so a missing
  request raises; a failure of the collaborator is replaced by the static analysis.
  The analysis itself is not read again by \<^verbatim>\<open>execute\<close>.
\<close>

definition analyze_request :: "request option \<Rightarrow> error + unit" where
  "analyze_request r =
     (case r of
        None \<Rightarrow> Inl (AttributeError no_goals_attribute)
      | Some req \<Rightarrow> Inr ())"

definition mock_card :: raw_card where
  "mock_card =
     \<lparr>rc_card_id = Some ''mock_001'', rc_card_name = Some ''Mock Premium Card'',
       rc_card_type = Some ''rewards'', rc_issuer = Some ''Mock Bank'',
       rc_annual_fee = Some 95, rc_rewards_rate = Some ''2% on all purchases'',
       rc_signup_bonus = Some ''50,000 points'',
       rc_credit_score_required = Some ''excellent'',
       rc_pros = Some [''High rewards rate'', ''Good signup bonus''],
       rc_cons = Some [''High annual fee'', ''Foreign transaction fees''],
       rc_text = ''{'' @ [CHR 0x27] @ ''card_id'' @ [CHR 0x27] @ '': '' @ [CHR 0x27] @ ''mock_001''
         @ [CHR 0x27] @ '', '' @ [CHR 0x27] @ ''card_name'' @ [CHR 0x27] @ '': '' @ [CHR 0x27]
         @ ''Mock Premium Card'' @ [CHR 0x27] @ '', '' @ [CHR 0x27] @ ''card_type'' @ [CHR 0x27]
         @ '': '' @ [CHR 0x27] @ ''rewards'' @ [CHR 0x27] @ '', '' @ [CHR 0x27] @ ''issuer''
         @ [CHR 0x27] @ '': '' @ [CHR 0x27] @ ''Mock Bank'' @ [CHR 0x27] @ '', '' @ [CHR 0x27]
         @ ''annual_fee'' @ [CHR 0x27] @ '': 95.0, '' @ [CHR 0x27] @ ''rewards_rate''
         @ [CHR 0x27] @ '': '' @ [CHR 0x27] @ ''2% on all purchases'' @ [CHR 0x27] @ '', ''
         @ [CHR 0x27] @ ''signup_bonus'' @ [CHR 0x27] @ '': '' @ [CHR 0x27] @ ''50,000 points''
         @ [CHR 0x27] @ '', '' @ [CHR 0x27] @ ''credit_score_required'' @ [CHR 0x27] @ '': ''
         @ [CHR 0x27] @ ''excellent'' @ [CHR 0x27] @ '', '' @ [CHR 0x27] @ ''pros'' @ [CHR 0x27]
         @ '': ['' @ [CHR 0x27] @ ''High rewards rate'' @ [CHR 0x27] @ '', '' @ [CHR 0x27]
         @ ''Good signup bonus'' @ [CHR 0x27] @ ''], '' @ [CHR 0x27] @ ''cons'' @ [CHR 0x27]
         @ '': ['' @ [CHR 0x27] @ ''High annual fee'' @ [CHR 0x27] @ '', '' @ [CHR 0x27]
         @ ''Foreign transaction fees'' @ [CHR 0x27] @ '']}''\<rparr>"

definition get_mock_cards :: "raw_card list" where
  "get_mock_cards = [mock_card]"

definition search_catalog :: "env \<Rightarrow> search_criteria \<Rightarrow> raw_card list" where
  "search_catalog env criteria =
     (case search_cards env criteria of
        Inr results \<Rightarrow> results
      | Inl e \<Rightarrow> get_mock_cards)"

text \<open>
  \<open>sum(1 for goal in request.goals if goal.lower() in str(card).lower())\<close>, and the
  conditional expression \<open>(goal_matches / len(request.goals)) * 0.4 if request.goals else 0.0\<close>
  that is added to the score.
\<close>

definition goal_matches :: "(string \<Rightarrow> string) \<Rightarrow> raw_card \<Rightarrow> request \<Rightarrow> nat" where
  "goal_matches lw crd req =
     length (filter (\<lambda>goal. contains (lw (rc_text crd)) (lw goal)) (goals req))"

text \<open>
  The \<open>if/elif/elif\<close> chain of the risk-tolerance step. \<open>and\<close> evaluates its right operand,
  which reads \<open>card["annual_fee"]\<close>, only when the left one holds. The result says whether
  \<open>0.3\<close> is added.
\<close>

definition risk_tolerance_matches :: "raw_card \<Rightarrow> request \<Rightarrow> error + bool" where
  "risk_tolerance_matches crd req =
     ebind (if risk_tolerance req = ''conservative''
            then ebind (subscript ''annual_fee'' (rc_annual_fee crd)) (\<lambda>fee. Inr (fee \<le> 50))
            else Inr False)
       (\<lambda>first_branch.
          if first_branch then Inr True
          else ebind (if risk_tolerance req = ''standard''
                      then ebind (subscript ''annual_fee'' (rc_annual_fee crd))
                             (\<lambda>fee. Inr (fee \<le> 150))
                      else Inr False)
                 (\<lambda>second_branch.
                    if second_branch then Inr True
                    else if risk_tolerance req = ''aggressive'' then Inr True
                    else Inr False))"

definition goal_matching :: "(string \<Rightarrow> string) \<Rightarrow> raw_card \<Rightarrow> request \<Rightarrow> error + rat" where
  "goal_matching lw crd req =
     (if goals req \<noteq> []
      then ebind (py_div (of_nat (goal_matches lw crd req)) (of_nat (length (goals req))))
             (\<lambda>ratio. Inr (ratio * (4 / 10)))
      else Inr 0)"

definition base_calculate_match_score ::
    "(string \<Rightarrow> string) \<Rightarrow> raw_card \<Rightarrow> request \<Rightarrow> error + rat" where
  "base_calculate_match_score lw crd req =
     (let score0 = 0
      in ebind (goal_matching lw crd req)
           (\<lambda>goal_part.
              let score1 = score0 + goal_part
              in ebind (risk_tolerance_matches crd req)
                   (\<lambda>risk_ok.
                      let score2 = (if risk_ok then score1 + 3 / 10 else score1);
                          score3 = (if time_horizon req = ''12m''
                                       \<and> contains (rc_text crd) ''signup_bonus''
                                    then score2 + 2 / 10 else score2);
                          score4 = (if constraints req = [] then score3 + 1 / 10 else score3)
                      in Inr (min score4 1))))"

definition travel_calculate_match_score ::
    "(string \<Rightarrow> string) \<Rightarrow> raw_card \<Rightarrow> request \<Rightarrow> error + rat" where
  "travel_calculate_match_score lw crd req =
     ebind (base_calculate_match_score lw crd req)
       (\<lambda>base_score.
          let card_text = lw (rc_text crd);
              b1 = (if list_ex (\<lambda>word. contains card_text word) [''miles'', ''airline'', ''travel'']
                    then base_score + 2 / 10 else base_score);
              b2 = (if contains card_text ''no foreign transaction fee'' then b1 + 1 / 10 else b1)
          in Inr (min b2 1))"

definition cashback_calculate_match_score ::
    "(string \<Rightarrow> string) \<Rightarrow> raw_card \<Rightarrow> request \<Rightarrow> error + rat" where
  "cashback_calculate_match_score lw crd req =
     ebind (base_calculate_match_score lw crd req)
       (\<lambda>base_score.
          let card_text = lw (rc_text crd);
              b1 = (if contains card_text ''cashback'' then base_score + 2 / 10 else base_score);
              b2 = (if contains (case rc_rewards_rate crd of None \<Rightarrow> [] | Some r \<Rightarrow> r) ''%''
                    then b1 + 1 / 10 else b1)
          in Inr (min b2 1))"

definition student_calculate_match_score ::
    "(string \<Rightarrow> string) \<Rightarrow> raw_card \<Rightarrow> request \<Rightarrow> error + rat" where
  "student_calculate_match_score lw crd req =
     ebind (base_calculate_match_score lw crd req)
       (\<lambda>base_score.
          let card_text = lw (rc_text crd);
              b1 = (if contains card_text ''student'' \<or> contains card_text ''first''
                    then base_score + 3 / 10 else base_score);
              b2 = (if (case rc_annual_fee crd of None \<Rightarrow> 1000 | Some fee \<Rightarrow> fee) \<le> 0
                    then b1 + 2 / 10 else b1)
          in Inr (min b2 1))"

fun calculate_match_score ::
    "(string \<Rightarrow> string) \<Rightarrow> manager_kind \<Rightarrow> raw_card \<Rightarrow> request \<Rightarrow> error + rat" where
  "calculate_match_score lw Travel crd req = travel_calculate_match_score lw crd req"
| "calculate_match_score lw Cashback crd req = cashback_calculate_match_score lw crd req"
| "calculate_match_score lw Student crd req = student_calculate_match_score lw crd req"
| "calculate_match_score lw kind crd req = base_calculate_match_score lw crd req"

text \<open>
  One iteration of the loop of \<^verbatim>\<open>rank_cards\<close>: the score first, then the keyword
  arguments of the \<^verbatim>\<open>CardRecommendation\<close> constructor in their order. The reasoning
  text, built last, reads only \<open>card["annual_fee"]\<close>, which the constructor has read by then.
\<close>

definition make_recommendation ::
    "(string \<Rightarrow> string) \<Rightarrow> manager_kind \<Rightarrow> raw_card \<Rightarrow> request
       \<Rightarrow> error + card_recommendation" where
  "make_recommendation lw kind card_data req =
     ebind (calculate_match_score lw kind card_data req) (\<lambda>score.
     ebind (subscript ''card_id'' (rc_card_id card_data)) (\<lambda>cid.
     ebind (subscript ''card_name'' (rc_card_name card_data)) (\<lambda>cname.
     ebind (subscript ''card_type'' (rc_card_type card_data)) (\<lambda>ctype.
     ebind (subscript ''issuer'' (rc_issuer card_data)) (\<lambda>iss.
     ebind (subscript ''annual_fee'' (rc_annual_fee card_data)) (\<lambda>fee.
     ebind (subscript ''rewards_rate'' (rc_rewards_rate card_data)) (\<lambda>rate.
     ebind (subscript ''signup_bonus'' (rc_signup_bonus card_data)) (\<lambda>bonus.
     ebind (subscript ''credit_score_required'' (rc_credit_score_required card_data)) (\<lambda>cs.
     ebind (subscript ''pros'' (rc_pros card_data)) (\<lambda>ps.
     ebind (subscript ''cons'' (rc_cons card_data)) (\<lambda>cns.
       Inr \<lparr>card_id = cid, card_name = cname, card_type = ctype, issuer = iss,
            annual_fee = fee, rewards_rate = rate, signup_bonus = bonus,
            credit_score_required = cs, pros = ps, cons = cns,
            match_score = score\<rparr>)))))))))))"

fun score_cards ::
    "(string \<Rightarrow> string) \<Rightarrow> manager_kind \<Rightarrow> raw_card list \<Rightarrow> request
       \<Rightarrow> error + card_recommendation list" where
  "score_cards lw kind [] req = Inr []"
| "score_cards lw kind (card_data # cards) req =
     ebind (make_recommendation lw kind card_data req) (\<lambda>recommendation.
     ebind (score_cards lw kind cards req) (\<lambda>others. Inr (recommendation # others)))"

definition rank_cards ::
    "(string \<Rightarrow> string) \<Rightarrow> manager_kind \<Rightarrow> raw_card list \<Rightarrow> request
       \<Rightarrow> error + card_recommendation list" where
  "rank_cards lw kind cards req =
     ebind (score_cards lw kind cards req)
       (\<lambda>ranked_cards. Inr (sort_desc match_score ranked_cards))"

definition manager_body :: "manager_kind \<Rightarrow> env \<Rightarrow> graph_state \<Rightarrow> error + graph_state" where
  "manager_body kind env st =
     ebind (analyze_request (request_of st)) (\<lambda>analysis.
       case request_of st of
         None \<Rightarrow> Inl (AttributeError no_goals_attribute)
       | Some req \<Rightarrow>
           (let raw_cards = search_catalog env
                              (goals req, risk_tolerance req, constraints req, jurisdiction req)
            in ebind (rank_cards (str_lower env) kind raw_cards req) (\<lambda>recs.
                 let top_recommendations = take 3 recs;
                     manager_result =
                       \<lparr>mr_manager_type = manager_type kind,
                        recommendations = top_recommendations,
                        total_cards_found = length raw_cards,
                        best_match = (case top_recommendations of
                                        [] \<Rightarrow> None | best # rest \<Rightarrow> Some best)\<rparr>
                 in Inr (st\<lparr>manager_results :=
                               dict_set (manager_results st) (manager_type kind) manager_result,
                             next_nodes := [''summary'']\<rparr>))))"

definition manager_execute :: "manager_kind \<Rightarrow> env \<Rightarrow> graph_state \<Rightarrow> graph_state" where
  "manager_execute kind env st0 =
     (let st1 = enter_node (manager_type kind) st0
      in case manager_body kind env st1 of
           Inr st2 \<Rightarrow> st2
         | Inl e \<Rightarrow>
             (record_error (manager_type kind) (str_of_error e) None st1)
               \<lparr>next_nodes := [''summary'']\<rparr>)"

subsection \<open>Enrichment stages (\<^verbatim>\<open>support_agents.py\<close>)\<close>

text \<open>
  Both stages keep their results in attributes that \<^verbatim>\<open>GraphState\<close> does not declare;
  the search and validation helpers catch their own failures. What is left of each stage
  for the rest of the pipeline is the node bookkeeping and the entries added to the error
  list.
\<close>

definition online_search_execute :: "env \<Rightarrow> graph_state \<Rightarrow> graph_state" where
  "online_search_execute env st0 =
     (let st1 = enter_node ''online_search'' st0
      in case setattr_undeclared env ''online_search_results'' of
           None \<Rightarrow> st1\<lparr>next_nodes := [''policy_validation'']\<rparr>
         | Some e \<Rightarrow>
             (record_error ''online_search'' (str_of_error e) None st1)
               \<lparr>next_nodes := [''policy_validation'']\<rparr>)"

definition add_warnings :: "string list \<Rightarrow> graph_state \<Rightarrow> graph_state" where
  "add_warnings ws st =
     fold (\<lambda>warning s. record_error ''policy_validation'' warning (Some ''warning'') s) ws st"

definition policy_validation_execute :: "env \<Rightarrow> graph_state \<Rightarrow> graph_state" where
  "policy_validation_execute env st0 =
     (let st1 = enter_node ''policy_validation'' st0
      in case setattr_undeclared env ''policy_validation'' of
           Some e \<Rightarrow>
             (record_error ''policy_validation'' (str_of_error e) None st1)
               \<lparr>next_nodes := [''summary'']\<rparr>
         | None \<Rightarrow>
             (case request_of st1 of
                Some req \<Rightarrow>
                  (add_warnings (policy_warnings env req (consent_of st1)) st1)
                    \<lparr>next_nodes := [''summary'']\<rparr>
              | None \<Rightarrow> st1\<lparr>next_nodes := [''summary'']\<rparr>))"

subsection \<open>Error handler (\<^verbatim>\<open>error_handler.py\<close>)\<close>

definition generate_user_friendly_message :: "error_info list \<Rightarrow> string" where
  "generate_user_friendly_message errs =
     (if errs = [] then ''No errors occurred during processing.''
      else ''We encountered some issues but your recommendations are still available below.'')"

definition generate_recovery_actions :: "error_info list \<Rightarrow> string list" where
  "generate_recovery_actions errs =
     [''Review the recommendations below'', ''Contact support if issues persist'']"

text \<open>The fallback entry is a dict with the keys of a \<^verbatim>\<open>CardRecommendation\<close>.\<close>

definition generate_fallback_recommendations :: "request \<Rightarrow> card_recommendation list" where
  "generate_fallback_recommendations req =
     [\<lparr>card_id = ''fallback_001'', card_name = ''Standard Rewards Card'',
       card_type = ''rewards'', issuer = ''Major Bank'', annual_fee = 49,
       rewards_rate = ''1% cashback on all purchases'', signup_bonus = ''$100 cashback'',
       credit_score_required = ''good'',
       pros = [''Simple rewards'', ''Moderate annual fee''],
       cons = [''Basic benefits'', ''No category bonuses''],
       match_score = 6 / 10\<rparr>]"

definition can_continue_execution :: "error_info list \<Rightarrow> bool" where
  "can_continue_execution errs = True"

definition error_handler_execute :: "env \<Rightarrow> graph_state \<Rightarrow> graph_state" where
  "error_handler_execute env st0 =
     (let st1 = enter_node ''error_handler'' st0;
          errs = errors st1;
          can = can_continue_execution errs;
          fallback = (case request_of st1 of
                        Some req \<Rightarrow> if can then generate_fallback_recommendations req else []
                      | None \<Rightarrow> []);
          result = \<lparr>errors_handled = length errs,
                    user_friendly_message = generate_user_friendly_message errs,
                    recovery_actions = generate_recovery_actions errs,
                    can_continue = can,
                    fallback_recommendations = fallback\<rparr>
      in case setattr_undeclared env ''error_handling'' of
           None \<Rightarrow> st1\<lparr>error_handling := Some result, next_nodes := [''summary'']\<rparr>
         | Some e \<Rightarrow>
             (record_error ''error_handler'' (''Error handler failed: '' @ str_of_error e)
                (Some ''critical'') st1)\<lparr>next_nodes := []\<rparr>)"

subsection \<open>Aggregation stage (\<^verbatim>\<open>summary.py\<close>)\<close>

definition aggregate_manager_results ::
    "(string \<times> manager_result) list \<Rightarrow> card_recommendation list" where
  "aggregate_manager_results results =
     fold (\<lambda>entry all_recommendations.
             if recommendations (snd entry) \<noteq> []
             then all_recommendations @ recommendations (snd entry)
             else all_recommendations)
       results []"

text \<open>The two nested loops of \<^verbatim>\<open>calculate_overall_score\<close>, then the cap.\<close>

definition boost_for :: "card_recommendation \<Rightarrow> card_recommendation \<Rightarrow> rat \<Rightarrow> rat" where
  "boost_for crd rec score = (if card_id rec = card_id crd then score + 1 / 10 else score)"

definition calculate_overall_score ::
    "card_recommendation \<Rightarrow> (string \<times> manager_result) list \<Rightarrow> rat" where
  "calculate_overall_score crd results =
     (let overall_score =
            fold (\<lambda>entry score. fold (boost_for crd) (recommendations (snd entry)) score)
              results (match_score crd)
      in min overall_score 1)"

definition collect_manager_scores ::
    "card_recommendation \<Rightarrow> (string \<times> manager_result) list \<Rightarrow> (string \<times> rat) list" where
  "collect_manager_scores crd results =
     fold (\<lambda>entry scores.
             fold (\<lambda>rec sc. if card_id rec = card_id crd
                             then dict_set sc (fst entry) (match_score rec) else sc)
               (recommendations (snd entry)) scores)
       results []"

definition final_of ::
    "(string \<times> manager_result) list \<Rightarrow> card_recommendation \<Rightarrow> final_recommendation" where
  "final_of results crd =
     \<lparr>fr_card_id = card_id crd, fr_card_name = card_name crd, fr_card_type = card_type crd,
      fr_issuer = issuer crd, fr_annual_fee = annual_fee crd,
      fr_rewards_rate = rewards_rate crd, fr_signup_bonus = signup_bonus crd,
      fr_credit_score_required = credit_score_required crd,
      fr_pros = pros crd, fr_cons = cons crd,
      overall_score = calculate_overall_score crd results,
      manager_scores = collect_manager_scores crd results\<rparr>"

definition create_final_recommendations ::
    "card_recommendation list \<Rightarrow> (string \<times> manager_result) list \<Rightarrow> final_recommendation list" where
  "create_final_recommendations all_cards results =
     sort_desc overall_score (map (final_of results) all_cards)"

text \<open>
  \<^verbatim>\<open>generate_summary_text\<close> produces display text; for a non-empty list it reads
  \<open>request.goals\<close>, which raises when the state has no request.
\<close>

definition generate_summary_text ::
    "final_recommendation list \<Rightarrow> request option \<Rightarrow> error + unit" where
  "generate_summary_text finals r =
     (if finals = [] then Inr ()
      else case r of
             None \<Rightarrow> Inl (AttributeError no_goals_attribute)
           | Some req \<Rightarrow> Inr ())"

definition confidence_of :: "final_recommendation list \<Rightarrow> rat" where
  "confidence_of finals =
     (if finals \<noteq> []
      then (let top_scores = map overall_score (take 3 finals)
            in sum_list top_scores / of_nat (length top_scores))
      else 0)"

definition empty_summary :: summary_result where
  "empty_summary =
     \<lparr>total_cards_analyzed = 0, sr_final_recommendations = [],
      top_recommendation = None, confidence_score = 0\<rparr>"

definition summary_execute :: "graph_state \<Rightarrow> graph_state" where
  "summary_execute st0 =
     (let st1 = enter_node ''summary'' st0;
          results = manager_results st1
      in if results = []
         then st1\<lparr>final_recommendations := Some empty_summary, next_nodes := []\<rparr>
         else
           (let all_cards = aggregate_manager_results results
            in if all_cards = []
               then st1\<lparr>final_recommendations := Some empty_summary, next_nodes := []\<rparr>
               else
                 (let finals = create_final_recommendations all_cards results
                  in case generate_summary_text finals (request_of st1) of
                       Inl e \<Rightarrow>
                         (record_error ''summary'' (str_of_error e) None st1)
                           \<lparr>next_nodes := []\<rparr>
                     | Inr summary_text \<Rightarrow>
                         st1\<lparr>final_recommendations :=
                               Some \<lparr>total_cards_analyzed = length all_cards,
                                     sr_final_recommendations = finals,
                                     top_recommendation =
                                       (case finals of [] \<Rightarrow> None | best # rest \<Rightarrow> Some best),
                                     confidence_score = confidence_of finals\<rparr>,
                             next_nodes := []\<rparr>)))"

subsection \<open>The compiled graph (\<^verbatim>\<open>create_credit_card_graph\<close>)\<close>

text \<open>
  The edges of the workflow: a conditional edge follows the one node that its routing
  function names; every manager leads to online search, policy validation and the
  summary; the error handler leads to the summary; the summary ends the run. An exception
  that leaves a node ends the run with that exception.
\<close>

fun manager_of_node :: "string \<Rightarrow> manager_kind option" where
  "manager_of_node name =
     (if name = ''travel_manager'' then Some Travel
      else if name = ''cashback_manager'' then Some Cashback
      else if name = ''business_manager'' then Some Business
      else if name = ''student_manager'' then Some Student
      else if name = ''general_manager'' then Some General
      else None)"

definition after_manager :: "env \<Rightarrow> graph_state \<Rightarrow> graph_state" where
  "after_manager env st =
     summary_execute (policy_validation_execute env (online_search_execute env st))"

definition after_error :: "env \<Rightarrow> graph_state \<Rightarrow> graph_state" where
  "after_error env st = summary_execute (error_handler_execute env st)"

definition from_router :: "env \<Rightarrow> graph_state \<Rightarrow> error + graph_state" where
  "from_router env st =
     (let st1 = router_node st;
          target = should_continue_to_managers st1
      in if target = ''error_handler'' then Inr (after_error env st1)
         else if target = END then Inr st1
         else case manager_of_node target of
                Some kind \<Rightarrow> Inr (after_manager env (manager_execute kind env st1))
              | None \<Rightarrow> Inl (KeyError target))"

definition run_graph :: "env \<Rightarrow> graph_state \<Rightarrow> error + graph_state" where
  "run_graph env st0 =
     (case extractor_node env st0 of
        Inl failure \<Rightarrow> Inl (fst failure)
      | Inr st1 \<Rightarrow>
          (let target = should_continue_to_router st1
           in if target = ''error_handler'' then Inr (after_error env st1)
              else if target = ''router'' then from_router env st1
              else Inr st1))"

subsection \<open>Sample inputs\<close>

definition no_goal_request :: request where
  "no_goal_request =
     \<lparr>intent = ''recommend_card'', constraints = [], goals = [], priority = [],
      spend_focus = [], jurisdiction = ''SG'', risk_tolerance = ''standard'',
      must_have = [], nice_to_have = [], time_horizon = ''12m''\<rparr>"

text \<open>
  Vocabulary of the statements about the aggregation stage: the pool (all candidates of all
  category results, in the order of the map), the number of pooled entries that carry a
  card's identifier, the number of categories other than \<open>origin\<close> that list it, and the
  mean of the first three values of a list.
\<close>

definition pool_of :: "(string \<times> manager_result) list \<Rightarrow> card_recommendation list" where
  "pool_of results = concat (map (\<lambda>entry. recommendations (snd entry)) results)"

definition same_id_entries ::
    "card_recommendation \<Rightarrow> (string \<times> manager_result) list \<Rightarrow> nat" where
  "same_id_entries crd results =
     length (filter (\<lambda>rec. card_id rec = card_id crd) (pool_of results))"

definition additional_categories ::
    "card_recommendation \<Rightarrow> string \<Rightarrow> (string \<times> manager_result) list \<Rightarrow> nat" where
  "additional_categories crd origin results =
     length (filter (\<lambda>entry. fst entry \<noteq> origin
                          \<and> list_ex (\<lambda>rec. card_id rec = card_id crd) (recommendations (snd entry)))
               results)"

definition mean_of_first_three :: "rat list \<Rightarrow> rat" where
  "mean_of_first_three scores =
     (if scores = [] then 0 else sum_list (take 3 scores) / of_nat (min 3 (length scores)))"

definition sample_card :: card_recommendation where
  "sample_card =
     \<lparr>card_id = ''travel_001'', card_name = ''Citi PremierMiles Card'', card_type = ''travel'',
      issuer = ''Citibank'', annual_fee = 963 / 5, rewards_rate = ''1.2 miles per S$1'',
      signup_bonus = ''10,000 miles'', credit_score_required = ''good'',
      pros = [''Flexible miles''], cons = [''Annual fee''], match_score = 1 / 2\<rparr>"

definition result_with :: "string \<Rightarrow> card_recommendation list \<Rightarrow> manager_result" where
  "result_with name recs =
     \<lparr>mr_manager_type = name, recommendations = recs, total_cards_found = length recs,
      best_match = (case recs of [] \<Rightarrow> None | best # rest \<Rightarrow> Some best)\<rparr>"

definition single_results :: "(string \<times> manager_result) list" where
  "single_results = [(''travel_manager'', result_with ''travel_manager'' [sample_card])]"

definition duplicate_results :: "(string \<times> manager_result) list" where
  "duplicate_results =
     [(''travel_manager'', result_with ''travel_manager'' [sample_card]),
      (''cashback_manager'', result_with ''cashback_manager'' [sample_card])]"

definition summary_sample_state :: graph_state where
  "summary_sample_state =
     (create_initial_state ''session_1'' ''travel card with miles'')
       \<lparr>request_of := Some no_goal_request, manager_results := duplicate_results\<rparr>"

text \<open>
  The terms of the match score as the specification words them. The goal-tag overlap is
  counted goal by goal: a goal counts when its lower-case form occurs in the lower-case
  rendering of the card; the overlap has weight 0.4 and is normalised by the number of
  goals. The fee band of the risk tolerance has weight 0.3; a record without an annual fee
  is within no band. The twelve-month horizon together with the text \<open>signup_bonus\<close> in
  the rendering of the card has weight 0.2, no constraints has weight 0.1. The travel
  handler adds 0.2 for one of its keywords and 0.1 for no foreign transaction fee.
  \<open>fee_is_read\<close> names the tolerances under which the code reads the fee.
\<close>

primrec overlap_count :: "(string \<Rightarrow> string) \<Rightarrow> string \<Rightarrow> string list \<Rightarrow> nat" where
  "overlap_count lw card_text [] = 0"
| "overlap_count lw card_text (goal # rest) =
     (if contains (lw card_text) (lw goal) then 1 else 0) + overlap_count lw card_text rest"

definition goal_overlap_term :: "(string \<Rightarrow> string) \<Rightarrow> raw_card \<Rightarrow> request \<Rightarrow> rat" where
  "goal_overlap_term lw crd req =
     (if goals req = [] then 0
      else (4 / 10) * (of_nat (overlap_count lw (rc_text crd) (goals req))
                        / of_nat (length (goals req))))"

definition fee_at_most :: "rat option \<Rightarrow> rat \<Rightarrow> bool" where
  "fee_at_most fee bound = (case fee of None \<Rightarrow> False | Some amount \<Rightarrow> amount \<le> bound)"

definition fee_band_fits :: "string \<Rightarrow> rat option \<Rightarrow> bool" where
  "fee_band_fits tolerance fee =
     ((tolerance = ''conservative'' \<and> fee_at_most fee 50)
      \<or> (tolerance = ''standard'' \<and> fee_at_most fee 150)
      \<or> tolerance = ''aggressive'')"

definition fee_band_term :: "request \<Rightarrow> rat option \<Rightarrow> rat" where
  "fee_band_term req fee = (if fee_band_fits (risk_tolerance req) fee then 3 / 10 else 0)"

definition horizon_term :: "raw_card \<Rightarrow> request \<Rightarrow> rat" where
  "horizon_term crd req =
     (if time_horizon req = ''12m'' \<and> contains (rc_text crd) ''signup_bonus'' then 2 / 10 else 0)"

definition flexibility_term :: "request \<Rightarrow> rat" where
  "flexibility_term req = (if constraints req = [] then 1 / 10 else 0)"

definition weighted_sum :: "(string \<Rightarrow> string) \<Rightarrow> raw_card \<Rightarrow> request \<Rightarrow> rat" where
  "weighted_sum lw crd req =
     goal_overlap_term lw crd req + fee_band_term req (rc_annual_fee crd)
       + horizon_term crd req + flexibility_term req"

definition travel_bonus :: "(string \<Rightarrow> string) \<Rightarrow> raw_card \<Rightarrow> rat" where
  "travel_bonus lw crd =
     (if contains (lw (rc_text crd)) ''miles'' \<or> contains (lw (rc_text crd)) ''airline''
         \<or> contains (lw (rc_text crd)) ''travel''
      then 2 / 10 else 0)
     + (if contains (lw (rc_text crd)) ''no foreign transaction fee'' then 1 / 10 else 0)"

definition fee_is_read :: "request \<Rightarrow> bool" where
  "fee_is_read req =
     (risk_tolerance req = ''conservative'' \<or> risk_tolerance req = ''standard'')"


definition miles_hotel_request :: request where
  "miles_hotel_request = no_goal_request\<lparr>goals := [''miles'', ''hotel'']\<rparr>"


text \<open>
  An environment whose catalog is unreachable (the handlers fall back to the mock card),
  one whose catalog returns the dict \<^verbatim>\<open>{'card_id': 'c1'}\<close>, and a state as the router
  leaves it for a request without goals.
\<close>

definition offline_env :: env where
  "offline_env =
     \<lparr>extract_request = (\<lambda>text cons loc. Inr miles_hotel_request),
      search_cards = (\<lambda>criteria. Inl (Exception ''catalog offline'')),
      policy_warnings = (\<lambda>req cons. []),
      str_lower = ascii_lower,
      setattr_undeclared = (\<lambda>name. None)\<rparr>"

definition id_only_card :: raw_card where
  "id_only_card =
     \<lparr>rc_card_id = Some ''c1'', rc_card_name = None, rc_card_type = None, rc_issuer = None,
      rc_annual_fee = None, rc_rewards_rate = None, rc_signup_bonus = None,
      rc_credit_score_required = None, rc_pros = None, rc_cons = None,
      rc_text = ''{'' @ [CHR 0x27] @ ''card_id'' @ [CHR 0x27] @ '': '' @ [CHR 0x27] @ ''c1''
        @ [CHR 0x27] @ ''}''\<rparr>"

definition malformed_catalog_env :: env where
  "malformed_catalog_env = offline_env\<lparr>search_cards := (\<lambda>criteria. Inr [id_only_card])\<rparr>"

text \<open>
  A complete catalog entry with the given identifier and integer fee (\<open>fee_text\<close> is the
  fee as Python prints it), for instance
  \<^verbatim>\<open>{'card_id': 'a', 'card_name': 'Card', 'card_type': 'rewards', 'issuer': 'Bank',
  'annual_fee': 200, 'rewards_rate': '1%', 'signup_bonus': 'none',
  'credit_score_required': 'good', 'pros': [], 'cons': []}\<close>,
  the recommendation built from it with a given score, and a catalog of four such entries
  with the fees 200, 0, 200 and 95.
\<close>

definition py_quote :: "string \<Rightarrow> string" where
  "py_quote s = [CHR 0x27] @ s @ [CHR 0x27]"

definition catalog_entry :: "string \<Rightarrow> rat \<Rightarrow> string \<Rightarrow> raw_card" where
  "catalog_entry cid fee fee_text =
     \<lparr>rc_card_id = Some cid, rc_card_name = Some ''Card'', rc_card_type = Some ''rewards'',
      rc_issuer = Some ''Bank'', rc_annual_fee = Some fee, rc_rewards_rate = Some ''1%'',
      rc_signup_bonus = Some ''none'', rc_credit_score_required = Some ''good'',
      rc_pros = Some [], rc_cons = Some [],
      rc_text =
        ''{'' @ py_quote ''card_id'' @ '': '' @ py_quote cid
        @ '', '' @ py_quote ''card_name'' @ '': '' @ py_quote ''Card''
        @ '', '' @ py_quote ''card_type'' @ '': '' @ py_quote ''rewards''
        @ '', '' @ py_quote ''issuer'' @ '': '' @ py_quote ''Bank''
        @ '', '' @ py_quote ''annual_fee'' @ '': '' @ fee_text
        @ '', '' @ py_quote ''rewards_rate'' @ '': '' @ py_quote ''1%''
        @ '', '' @ py_quote ''signup_bonus'' @ '': '' @ py_quote ''none''
        @ '', '' @ py_quote ''credit_score_required'' @ '': '' @ py_quote ''good''
        @ '', '' @ py_quote ''pros'' @ '': [], '' @ py_quote ''cons'' @ '': []}''\<rparr>"

definition scored_entry :: "string \<Rightarrow> rat \<Rightarrow> rat \<Rightarrow> card_recommendation" where
  "scored_entry cid fee score =
     \<lparr>card_id = cid, card_name = ''Card'', card_type = ''rewards'', issuer = ''Bank'',
      annual_fee = fee, rewards_rate = ''1%'', signup_bonus = ''none'',
      credit_score_required = ''good'', pros = [], cons = [], match_score = score\<rparr>"

definition four_card_catalog :: "raw_card list" where
  "four_card_catalog =
     [catalog_entry ''a'' 200 ''200'', catalog_entry ''b'' 0 ''0'',
      catalog_entry ''c'' 200 ''200'', catalog_entry ''d'' 95 ''95'']"

definition four_card_env :: env where
  "four_card_env = offline_env\<lparr>search_cards := (\<lambda>criteria. Inr four_card_catalog)\<rparr>"

definition routed_state :: graph_state where
  "routed_state =
     (create_initial_state ''session_1'' ''any card'')\<lparr>request_of := Some no_goal_request\<rparr>"

text \<open>
  The state in which the \<open>except\<close> block of the extractor leaves a fresh session whose
  query is empty, the state after a successful extraction, the keys of the result map,
  and an environment whose extraction yields the goals miles and cashback and whose
  catalog returns the empty list.
\<close>

definition extraction_failed :: "string \<Rightarrow> graph_state" where
  "extraction_failed sid =
     (create_initial_state sid [])
       \<lparr>current_node := Some ''extractor'',
        errors := [\<lparr>err_node = ''extractor'', err_message = ''No user query provided'',
                    err_type = None\<rparr>],
        next_nodes := [''error_handler'']\<rparr>"

definition extracted_state :: "string \<Rightarrow> string \<Rightarrow> request \<Rightarrow> graph_state" where
  "extracted_state sid query req =
     (create_initial_state sid query)
       \<lparr>current_node := Some ''extractor'', request_of := Some req,
        telemetry_events := [''extractor.ok''], completed_nodes := [''extractor''],
        next_nodes := [''router'']\<rparr>"

definition result_keys :: "graph_state \<Rightarrow> string list" where
  "result_keys st = map fst (manager_results st)"

definition miles_cashback_request :: request where
  "miles_cashback_request = no_goal_request\<lparr>goals := [''miles'', ''cashback'']\<rparr>"

definition empty_catalog_env :: env where
  "empty_catalog_env =
     offline_env\<lparr>extract_request := (\<lambda>text cons loc. Inr miles_cashback_request),
                 search_cards := (\<lambda>criteria. Inr [])\<rparr>"


section \<open>Properties of the stable descending sort\<close>

lemma insert_desc_set: "set (insert_desc f x xs) = insert x (set xs)"
  by (induction xs) auto

lemma insert_desc_sorted:
  "sorted_wrt (\<lambda>a b. f b \<le> f a) xs \<Longrightarrow> sorted_wrt (\<lambda>a b. f b \<le> f a) (insert_desc f x xs)"
  by (induction xs) (auto simp: insert_desc_set)

lemma sort_desc_sorted: "sorted_wrt (\<lambda>a b. f b \<le> f a) (sort_desc f xs)"
  by (induction xs) (simp_all add: insert_desc_sorted)

lemma insert_desc_length: "length (insert_desc f x xs) = Suc (length xs)"
  by (induction xs) auto

lemma sort_desc_length: "length (sort_desc f xs) = length xs"
  by (induction xs) (simp_all add: insert_desc_length)

lemma sort_desc_set: "set (sort_desc f xs) = set xs"
  by (induction xs) (simp_all add: insert_desc_set)

lemma insert_desc_filter:
  "filter (\<lambda>y. f y = k) (insert_desc f x xs) = filter (\<lambda>y. f y = k) (x # xs)"
  by (induction xs) auto

lemma sort_desc_stable:
  "filter (\<lambda>y. f y = k) (sort_desc f xs) = filter (\<lambda>y. f y = k) xs"
  by (induction xs) (simp_all add: insert_desc_filter)

lemma filter_take_prefix: "prefix (filter P (take n xs)) (filter P xs)"
proof -
  have "filter P xs = filter P (take n xs) @ filter P (drop n xs)"
    by (metis append_take_drop_id filter_append)
  then show ?thesis by (simp add: prefix_def)
qed

section \<open>Routing\<close>

lemma any_in_iff: "any_in tags gs \<longleftrightarrow> set tags \<inter> set gs \<noteq> {}"
  by (auto simp: any_in_def list_ex_iff)

lemma group_matches_any_in: "group_matches gs tags = any_in tags gs"
  by (simp add: group_matches_def any_in_iff)

lemma determine_eq_table:
  "determine_manager_categories req = plan_by_table (goals req)"
  unfolding determine_manager_categories_def plan_by_table_def routing_table_def
    group_matches_any_in Let_def
  by (cases "any_in [''miles'', ''travel'', ''airline'', ''hotel''] (goals req)";
      cases "any_in [''cashback'', ''cash'', ''rewards'', ''money''] (goals req)";
      cases "any_in [''business'', ''corporate'', ''expense'', ''employee''] (goals req)";
      cases "any_in [''student'', ''building_credit'', ''first'', ''college''] (goals req)")
     simp_all

lemma plan_by_table_distinct: "distinct (plan_by_table gs)"
  by (simp add: plan_by_table_def routing_table_def Let_def)

lemma plan_by_table_order:
  "plan_by_table gs = [''general_manager''] \<or>
   subseq (plan_by_table gs)
     [''travel_manager'', ''cashback_manager'', ''business_manager'', ''student_manager'']"
  by (simp add: plan_by_table_def routing_table_def Let_def)

lemma plan_by_table_default:
  "\<forall>row \<in> set routing_table. set (fst row) \<inter> set gs = {} \<Longrightarrow>
   plan_by_table gs = [''general_manager'']"
  by (simp add: plan_by_table_def routing_table_def group_matches_def Let_def)

lemma plan_by_table_empty: "plan_by_table [] = [''general_manager'']"
  by (simp add: plan_by_table_def routing_table_def group_matches_def Let_def)

text \<open>
  Claim C6. The routing function depends on the goal list alone and computes the plan of
  the fixed table: the categories of the tag groups (travel, cashback, business, student,
  in this order) that share a tag with the goals, without repetition; when the goal list is
  empty, or no group shares a tag with it, the plan is the general category alone.
\<close>

theorem routing_plan:
  "determine_manager_categories req = plan_by_table (goals req)
   \<and> distinct (determine_manager_categories req)
   \<and> (determine_manager_categories req = [''general_manager''] \<or>
      subseq (determine_manager_categories req)
        [''travel_manager'', ''cashback_manager'', ''business_manager'', ''student_manager''])
   \<and> (goals req = [] \<longrightarrow> determine_manager_categories req = [''general_manager''])
   \<and> ((\<forall>row \<in> set routing_table. set (fst row) \<inter> set (goals req) = {})
        \<longrightarrow> determine_manager_categories req = [''general_manager''])"
proof -
  have "goals req = [] \<longrightarrow> plan_by_table (goals req) = [''general_manager'']"
    by (simp add: plan_by_table_empty)
  then show ?thesis
    using plan_by_table_distinct[of "goals req"] plan_by_table_order[of "goals req"]
      plan_by_table_default[of "goals req"]
    by (simp only: determine_eq_table) blast
qed

theorem routing_plan_witness:
  "goals no_goal_request = []
   \<and> determine_manager_categories no_goal_request = [''general_manager'']
   \<and> plan_by_table (goals no_goal_request) = [''general_manager'']"
  using routing_plan[of no_goal_request]
  by (simp add: no_goal_request_def plan_by_table_empty)

section \<open>Match scores\<close>

lemma overlap_count_filter:
  "overlap_count lw card_text gs
     = length (filter (\<lambda>goal. contains (lw card_text) (lw goal)) gs)"
  by (induction gs) simp_all

lemma goal_matches_count:
  "goal_matches lw crd req = overlap_count lw (rc_text crd) (goals req)"
  by (simp add: goal_matches_def overlap_count_filter)


lemma goal_matching_value: "goal_matching lw crd req = Inr (goal_overlap_term lw crd req)"
  by (simp add: goal_matching_def goal_overlap_term_def goal_matches_count py_div_def ebind_def)


lemma risk_matches_value:
  "risk_tolerance_matches crd req
     = (if fee_is_read req \<and> rc_annual_fee crd = None then Inl (KeyError ''annual_fee'')
        else Inr (fee_band_fits (risk_tolerance req) (rc_annual_fee crd)))"
  by (cases "rc_annual_fee crd")
     (auto simp: risk_tolerance_matches_def fee_is_read_def fee_band_fits_def fee_at_most_def
        ebind_def subscript_def)


lemma base_score_value:
  "base_calculate_match_score lw crd req
     = (if fee_is_read req \<and> rc_annual_fee crd = None then Inl (KeyError ''annual_fee'')
        else Inr (min (weighted_sum lw crd req) 1))"
  by (simp add: base_calculate_match_score_def goal_matching_value risk_matches_value
      ebind_def Let_def weighted_sum_def fee_band_term_def horizon_term_def flexibility_term_def)

lemma travel_score_value:
  "travel_calculate_match_score lw crd req
     = (if fee_is_read req \<and> rc_annual_fee crd = None then Inl (KeyError ''annual_fee'')
        else Inr (min (min (weighted_sum lw crd req) 1 + travel_bonus lw crd) 1))"
  by (simp add: travel_calculate_match_score_def base_score_value ebind_def Let_def
      travel_bonus_def add.commute)


lemma id_only_fee: "rc_annual_fee id_only_card = None"
  by (simp add: id_only_card_def)












section \<open>Category handlers\<close>

lemma dict_get_set_same: "dict_get (dict_set d k v) k = Some v"
  by (induction d k v rule: dict_set.induct) auto

lemma dict_get_set_other: "k' \<noteq> k \<Longrightarrow> dict_get (dict_set d k v) k' = dict_get d k'"
  by (induction d k v rule: dict_set.induct) auto

lemma make_recommendation_id:
  "make_recommendation lw kind c req = Inr r \<Longrightarrow> rc_card_id c = Some (card_id r)"
  by (auto simp: make_recommendation_def ebind_def subscript_def split: sum.splits option.splits)

lemma score_cards_ids:
  "score_cards lw kind cards req = Inr scored \<Longrightarrow>
   map (\<lambda>r. Some (card_id r)) scored = map rc_card_id cards"
proof (induction cards arbitrary: scored)
  case Nil
  then show ?case by simp
next
  case (Cons c cs)
  then show ?case
    by (auto simp: ebind_def make_recommendation_id split: sum.splits)
qed

lemma manager_body_Inr:
  assumes "manager_body kind env st = Inr st2"
  shows "\<exists>req scored.
           request_of st = Some req
           \<and> score_cards (str_lower env) kind
               (search_catalog env (goals req, risk_tolerance req, constraints req, jurisdiction req))
               req = Inr scored
           \<and> manager_results st2
               = dict_set (manager_results st) (manager_type kind)
                   \<lparr>mr_manager_type = manager_type kind,
                    recommendations = take 3 (sort_desc match_score scored),
                    total_cards_found =
                      length (search_catalog env
                                (goals req, risk_tolerance req, constraints req, jurisdiction req)),
                    best_match = (case take 3 (sort_desc match_score scored) of
                                    [] \<Rightarrow> None | best # rest \<Rightarrow> Some best)\<rparr>
           \<and> errors st2 = errors st"
  using assms
  by (auto simp: manager_body_def analyze_request_def rank_cards_def ebind_def Let_def
      split: option.splits sum.splits)

lemma manager_execute_Inl:
  "manager_body kind env (enter_node (manager_type kind) st) = Inl e \<Longrightarrow>
   manager_execute kind env st
     = (record_error (manager_type kind) (str_of_error e) None
          (enter_node (manager_type kind) st))\<lparr>next_nodes := [''summary'']\<rparr>"
  by (simp add: manager_execute_def Let_def)

lemma manager_execute_Inr:
  "manager_body kind env (enter_node (manager_type kind) st) = Inr st2 \<Longrightarrow>
   manager_execute kind env st = st2"
  by (simp add: manager_execute_def Let_def)

text \<open>
  Claim C3, as the code behaves: when an exception leaves the analyse, search or rank step
  of a handler, \<^verbatim>\<open>execute\<close> catches it, appends one error record tagged with the
  handler's name, names the summary as next node and leaves the result map as it was: no
  result is written for the handler.
\<close>

theorem handler_failure_leaves_no_result:
  assumes "manager_body kind env (enter_node (manager_type kind) st) = Inl e"
  shows "errors (manager_execute kind env st)
           = errors st @ [\<lparr>err_node = manager_type kind, err_message = str_of_error e,
                           err_type = None\<rparr>]
         \<and> manager_results (manager_execute kind env st) = manager_results st
         \<and> completed_nodes (manager_execute kind env st)
             = completed_nodes st @ [manager_type kind]
         \<and> next_nodes (manager_execute kind env st) = [''summary'']"
  by (simp add: manager_execute_Inl[OF assms] record_error_def enter_node_def)

text \<open>
  Claim C8. A category result written by a handler lists at most three recommendations in
  non-increasing order of match score, and recommendations with equal scores stand in the
  order in which the catalog returned their cards.
\<close>

theorem category_result_sorted_top3:
  assumes "dict_get (manager_results st) (manager_type kind) = None"
      and "dict_get (manager_results (manager_execute kind env st)) (manager_type kind) = Some res"
  shows "sorted_wrt (\<lambda>a b. match_score b \<le> match_score a) (recommendations res)
         \<and> length (recommendations res) \<le> 3
         \<and> (\<exists>req scored.
               request_of st = Some req
               \<and> score_cards (str_lower env) kind
                   (search_catalog env
                      (goals req, risk_tolerance req, constraints req, jurisdiction req))
                   req = Inr scored
               \<and> map (\<lambda>r. Some (card_id r)) scored
                   = map rc_card_id
                       (search_catalog env
                          (goals req, risk_tolerance req, constraints req, jurisdiction req))
               \<and> (\<forall>k. prefix (filter (\<lambda>r. match_score r = k) (recommendations res))
                               (filter (\<lambda>r. match_score r = k) scored)))"
proof (cases "manager_body kind env (enter_node (manager_type kind) st)")
  case (Inl e)
  have "manager_results (manager_execute kind env st) = manager_results st"
    by (simp add: manager_execute_Inl[OF Inl] record_error_def enter_node_def)
  with assms show ?thesis by simp
next
  case (Inr st2)
  from manager_body_Inr[OF Inr] obtain req scored where
    req: "request_of (enter_node (manager_type kind) st) = Some req" and
    sc: "score_cards (str_lower env) kind
           (search_catalog env (goals req, risk_tolerance req, constraints req, jurisdiction req))
           req = Inr scored" and
    mr: "manager_results st2
           = dict_set (manager_results (enter_node (manager_type kind) st)) (manager_type kind)
               \<lparr>mr_manager_type = manager_type kind,
                recommendations = take 3 (sort_desc match_score scored),
                total_cards_found =
                  length (search_catalog env
                            (goals req, risk_tolerance req, constraints req, jurisdiction req)),
                best_match = (case take 3 (sort_desc match_score scored) of
                                [] \<Rightarrow> None | best # rest \<Rightarrow> Some best)\<rparr>"
    by blast
  have recs: "recommendations res = take 3 (sort_desc match_score scored)"
    using assms(2) by (auto simp: manager_execute_Inr[OF Inr] mr dict_get_set_same)
  have s: "sorted_wrt (\<lambda>a b. match_score b \<le> match_score a) (recommendations res)"
    by (simp add: recs sorted_wrt_take sort_desc_sorted)
  have st: "\<forall>k. prefix (filter (\<lambda>r. match_score r = k) (recommendations res))
                       (filter (\<lambda>r. match_score r = k) scored)"
  proof
    fix k
    show "prefix (filter (\<lambda>r. match_score r = k) (recommendations res))
                 (filter (\<lambda>r. match_score r = k) scored)"
      using filter_take_prefix[of "\<lambda>r. match_score r = k" 3 "sort_desc match_score scored"]
      by (simp add: recs sort_desc_stable)
  qed
  have rq: "request_of st = Some req"
    using req by (simp add: enter_node_def)
  show ?thesis
    using s st sc rq score_cards_ids[OF sc] by (auto simp: recs)
qed

lemma contains_empty: "contains hay []"
  by (cases hay) simp_all

lemma contains_middle: "contains (before @ needle @ rest) needle"
proof (induction before)
  case Nil
  show ?case by (cases needle) (simp_all add: contains_empty)
next
  case (Cons c cs)
  then show ?case by simp
qed

lemma entry_has_bonus_key: "contains (rc_text (catalog_entry cid fee fee_text)) ''signup_bonus''"
proof -
  have "rc_text (catalog_entry cid fee fee_text)
      = (''{'' @ py_quote ''card_id'' @ '': '' @ py_quote cid
         @ '', '' @ py_quote ''card_name'' @ '': '' @ py_quote ''Card''
         @ '', '' @ py_quote ''card_type'' @ '': '' @ py_quote ''rewards''
         @ '', '' @ py_quote ''issuer'' @ '': '' @ py_quote ''Bank''
         @ '', '' @ py_quote ''annual_fee'' @ '': '' @ fee_text
         @ '', '' @ py_quote ''rewards_rate'' @ '': '' @ py_quote ''1%''
         @ '', '' @ [CHR 0x27])
        @ ''signup_bonus''
        @ ([CHR 0x27] @ '': '' @ py_quote ''none''
           @ '', '' @ py_quote ''credit_score_required'' @ '': '' @ py_quote ''good''
           @ '', '' @ py_quote ''pros'' @ '': [], '' @ py_quote ''cons'' @ '': []}'')"
    by (simp add: catalog_entry_def py_quote_def)
  then show ?thesis
    by (simp only: contains_middle)
qed

lemma entry_fields:
  "rc_card_id (catalog_entry cid fee fee_text) = Some cid"
  "rc_card_name (catalog_entry cid fee fee_text) = Some ''Card''"
  "rc_card_type (catalog_entry cid fee fee_text) = Some ''rewards''"
  "rc_issuer (catalog_entry cid fee fee_text) = Some ''Bank''"
  "rc_annual_fee (catalog_entry cid fee fee_text) = Some fee"
  "rc_rewards_rate (catalog_entry cid fee fee_text) = Some ''1%''"
  "rc_signup_bonus (catalog_entry cid fee fee_text) = Some ''none''"
  "rc_credit_score_required (catalog_entry cid fee fee_text) = Some ''good''"
  "rc_pros (catalog_entry cid fee fee_text) = Some []"
  "rc_cons (catalog_entry cid fee fee_text) = Some []"
  by (simp_all add: catalog_entry_def)

lemma entry_weighted_sum:
  "weighted_sum lw (catalog_entry cid fee fee_text) no_goal_request
     = (if fee \<le> 150 then 6 / 10 else 3 / 10)"
  by (simp add: weighted_sum_def goal_overlap_term_def fee_band_term_def fee_band_fits_def
      fee_at_most_def horizon_term_def flexibility_term_def entry_has_bonus_key entry_fields)
     (simp add: no_goal_request_def)

lemma entry_score:
  "base_calculate_match_score lw (catalog_entry cid fee fee_text) no_goal_request
     = Inr (if fee \<le> 150 then 6 / 10 else 3 / 10)"
  by (simp add: base_score_value entry_fields entry_weighted_sum)

lemma entry_recommendation:
  "make_recommendation lw General (catalog_entry cid fee fee_text) no_goal_request
     = Inr (scored_entry cid fee (if fee \<le> 150 then 6 / 10 else 3 / 10))"
  unfolding make_recommendation_def calculate_match_score.simps entry_score entry_fields
    subscript_def ebind_def scored_entry_def
  by simp

lemma scored_entry_fields:
  "card_id (scored_entry cid fee score) = cid"
  "match_score (scored_entry cid fee score) = score"
  by (simp_all add: scored_entry_def)

lemma four_card_scored:
  "score_cards lw General four_card_catalog no_goal_request
     = Inr [scored_entry ''a'' 200 (3 / 10), scored_entry ''b'' 0 (6 / 10),
            scored_entry ''c'' 200 (3 / 10), scored_entry ''d'' 95 (6 / 10)]"
  by (simp add: four_card_catalog_def entry_recommendation ebind_def)

lemma four_card_ranked:
  "rank_cards lw General four_card_catalog no_goal_request
     = Inr [scored_entry ''b'' 0 (6 / 10), scored_entry ''d'' 95 (6 / 10),
            scored_entry ''a'' 200 (3 / 10), scored_entry ''c'' 200 (3 / 10)]"
  by (simp add: rank_cards_def four_card_scored ebind_def scored_entry_fields)

lemma four_card_body:
  "manager_body General four_card_env (enter_node (manager_type General) routed_state)
     = Inr ((enter_node (manager_type General) routed_state)
            \<lparr>manager_results := [(''general_manager'',
                 \<lparr>mr_manager_type = ''general_manager'',
                  recommendations = [scored_entry ''b'' 0 (6 / 10), scored_entry ''d'' 95 (6 / 10),
                                     scored_entry ''a'' 200 (3 / 10)],
                  total_cards_found = 4,
                  best_match = Some (scored_entry ''b'' 0 (6 / 10))\<rparr>)],
              next_nodes := [''summary'']\<rparr>)"
proof -
  have rq: "request_of (enter_node n routed_state) = Some no_goal_request" for n
    by (simp add: enter_node_def routed_state_def)
  have mr: "manager_results (enter_node n routed_state) = []" for n
    by (simp add: enter_node_def routed_state_def create_initial_state_def)
  have cat: "search_catalog four_card_env c = four_card_catalog" for c
    by (simp add: search_catalog_def four_card_env_def offline_env_def)
  have len: "length four_card_catalog = 4"
    by (simp add: four_card_catalog_def)
  show ?thesis
    by (simp add: manager_body_def analyze_request_def rq cat four_card_ranked mr len
        ebind_def Let_def)
qed

theorem category_result_sorted_top3_witness:
  "dict_get (manager_results routed_state) (manager_type General) = None
   \<and> map rc_card_id four_card_catalog = [Some ''a'', Some ''b'', Some ''c'', Some ''d'']
   \<and> map card_id
       (recommendations
          (the (dict_get (manager_results (manager_execute General four_card_env routed_state))
                  (manager_type General)))) = [''b'', ''d'', ''a'']
   \<and> map match_score
       (recommendations
          (the (dict_get (manager_results (manager_execute General four_card_env routed_state))
                  (manager_type General)))) = [6 / 10, 6 / 10, 3 / 10]"
proof -
  let ?res = "\<lparr>mr_manager_type = ''general_manager'',
                  recommendations = [scored_entry ''b'' 0 (6 / 10), scored_entry ''d'' 95 (6 / 10),
                                     scored_entry ''a'' 200 (3 / 10)],
                  total_cards_found = 4,
                  best_match = Some (scored_entry ''b'' 0 (6 / 10))\<rparr>"
  have before: "dict_get (manager_results routed_state) (manager_type General) = None"
    by (simp add: routed_state_def create_initial_state_def)
  have run: "manager_execute General four_card_env routed_state
     = (enter_node (manager_type General) routed_state)
            \<lparr>manager_results := [(''general_manager'', ?res)], next_nodes := [''summary'']\<rparr>"
    by (rule manager_execute_Inr[OF four_card_body])
  have after: "dict_get (manager_results (manager_execute General four_card_env routed_state))
                 (manager_type General) = Some ?res"
    by (simp add: run)
  have ids: "map rc_card_id four_card_catalog = [Some ''a'', Some ''b'', Some ''c'', Some ''d'']"
    by (simp add: four_card_catalog_def entry_fields)
  have "length (recommendations ?res) \<le> 3"
    using category_result_sorted_top3[OF before after] by blast
  then show ?thesis
    using before ids by (simp only: after option.sel) (simp add: scored_entry_fields)
qed

lemma feeless_fails:
  "manager_body Travel malformed_catalog_env (enter_node (manager_type Travel) routed_state)
     = Inl (KeyError ''annual_fee'')"
proof -
  have rq: "request_of (enter_node n routed_state) = Some no_goal_request" for n
    by (simp add: enter_node_def routed_state_def)
  have cat: "search_catalog malformed_catalog_env c = [id_only_card]" for c
    by (simp add: search_catalog_def malformed_catalog_env_def offline_env_def)
  have sc: "travel_calculate_match_score lw id_only_card no_goal_request
              = Inl (KeyError ''annual_fee'')" for lw
    by (simp add: travel_score_value id_only_fee fee_is_read_def no_goal_request_def)
  have rk: "rank_cards lw Travel [id_only_card] no_goal_request = Inl (KeyError ''annual_fee'')"
    for lw
    by (simp add: rank_cards_def make_recommendation_def sc ebind_def)
  show ?thesis
    by (simp add: manager_body_def analyze_request_def rq cat rk ebind_def Let_def)
qed

text \<open>
  The travel handler on a catalog entry without an annual fee: the error is recorded and
  the result map has no entry for the handler afterwards.
\<close>

theorem handler_failure_counterexample:
  "dict_get (manager_results (manager_execute Travel malformed_catalog_env routed_state))
     (manager_type Travel) = None
   \<and> map err_node (errors (manager_execute Travel malformed_catalog_env routed_state))
       = [''travel_manager'']"
  unfolding manager_execute_Inl[OF feeless_fails]
  by (simp add: record_error_def enter_node_def routed_state_def create_initial_state_def)

theorem handler_failure_leaves_no_result_witness:
  "manager_body Travel malformed_catalog_env (enter_node (manager_type Travel) routed_state)
     = Inl (KeyError ''annual_fee'')
   \<and> manager_results (manager_execute Travel malformed_catalog_env routed_state) = []
   \<and> map err_message (errors (manager_execute Travel malformed_catalog_env routed_state))
       = [[CHR 0x27] @ ''annual_fee'' @ [CHR 0x27]]"
proof -
  have "manager_results routed_state = []" and "errors routed_state = []"
    by (simp_all add: routed_state_def create_initial_state_def)
  then show ?thesis
    using handler_failure_leaves_no_result[OF feeless_fails] feeless_fails
    by simp
qed

section \<open>Aggregation\<close>

lemma fold_boost:
  "fold (boost_for crd) recs s =
   s + of_nat (length (filter (\<lambda>rec. card_id rec = card_id crd) recs)) / 10"
  by (induction recs arbitrary: s) (simp_all add: boost_for_def add_divide_distrib)

lemma fold_boost_results:
  "fold (\<lambda>entry score. fold (boost_for crd) (recommendations (snd entry)) score) results s =
   s + of_nat (length (filter (\<lambda>rec. card_id rec = card_id crd) (pool_of results))) / 10"
  by (induction results arbitrary: s) (simp_all add: pool_of_def fold_boost add_divide_distrib)

text \<open>
  Claim C1, as the code computes it: the aggregate score is the candidate's own match score
  plus 0.1 for every entry with the same card identifier in any category's result list, the
  entry of the category that produced the candidate included, capped at 1.
\<close>

theorem overall_score_counts_every_entry:
  "calculate_overall_score crd results =
   min (match_score crd + of_nat (same_id_entries crd results) / 10) 1"
  by (simp add: calculate_overall_score_def same_id_entries_def fold_boost_results Let_def)

text \<open>
  A candidate listed by its own category only: the code gives \<open>0.5 + 0.1\<close>, while counting
  additional categories only would give \<open>0.5\<close>.
\<close>

theorem overall_score_counterexample:
  "calculate_overall_score sample_card single_results = 3 / 5
   \<and> min (match_score sample_card
          + of_nat (additional_categories sample_card ''travel_manager'' single_results) / 10) 1
       = 1 / 2"
  by (simp add: calculate_overall_score_def single_results_def result_with_def sample_card_def
      boost_for_def additional_categories_def)

lemma aggregate_fold:
  "fold (\<lambda>entry all_recommendations.
             if recommendations (snd entry) \<noteq> []
             then all_recommendations @ recommendations (snd entry)
             else all_recommendations) results acc = acc @ pool_of results"
  by (induction results arbitrary: acc) (simp_all add: pool_of_def)

lemma aggregate_is_pool: "aggregate_manager_results results = pool_of results"
  by (simp add: aggregate_manager_results_def aggregate_fold)

lemma pool_length:
  "length (pool_of results) = sum_list (map (\<lambda>entry. length (recommendations (snd entry))) results)"
  by (simp add: pool_of_def length_concat comp_def)

lemma insert_desc_count:
  "length (filter P (insert_desc f x xs)) = length (filter P (x # xs))"
  by (induction xs) auto

lemma sort_desc_count: "length (filter P (sort_desc f xs)) = length (filter P xs)"
  by (induction xs) (simp_all add: insert_desc_count)

lemma final_of_id: "fr_card_id (final_of results crd) = card_id crd"
  by (simp add: final_of_def)

lemma final_of_score: "overall_score (final_of results crd) = calculate_overall_score crd results"
  by (simp add: final_of_def)

lemma overall_le_one: "calculate_overall_score crd results \<le> 1"
  by (simp add: calculate_overall_score_def Let_def)

lemma final_count:
  "length (filter (\<lambda>f. fr_card_id f = i) (create_final_recommendations cards results))
   = length (filter (\<lambda>c. card_id c = i) cards)"
  by (simp add: create_final_recommendations_def sort_desc_count filter_map comp_def final_of_id)

lemma final_scores_le_one:
  "f \<in> set (create_final_recommendations cards results) \<Longrightarrow> overall_score f \<le> 1"
  by (auto simp: create_final_recommendations_def sort_desc_set final_of_score overall_le_one)

text \<open>
  Claim C2, as the code computes it: the pool has as many candidates as the category
  results list in total; the final list has one entry for every pooled candidate, so an
  identifier pooled \<open>n\<close> times has \<open>n\<close> final entries (nothing is merged); every
  aggregate score is at most 1.
\<close>

theorem pool_and_final_entries:
  "length (aggregate_manager_results results)
     = sum_list (map (\<lambda>entry. length (recommendations (snd entry))) results)
   \<and> length (create_final_recommendations (aggregate_manager_results results) results)
     = length (aggregate_manager_results results)
   \<and> (\<forall>i. length (filter (\<lambda>f. fr_card_id f = i)
                   (create_final_recommendations (aggregate_manager_results results) results))
          = length (filter (\<lambda>c. card_id c = i) (aggregate_manager_results results)))
   \<and> (\<forall>f \<in> set (create_final_recommendations (aggregate_manager_results results) results).
         overall_score f \<le> 1)"
proof -
  have "length (create_final_recommendations (aggregate_manager_results results) results)
        = length (aggregate_manager_results results)"
    by (simp add: create_final_recommendations_def sort_desc_length)
  then show ?thesis
    using final_scores_le_one[of _ "aggregate_manager_results results" results]
      final_count[of _ "aggregate_manager_results results" results]
    by (simp add: aggregate_is_pool pool_length)
qed

text \<open>
  Two categories that list the same card give two final entries with that identifier.
\<close>

theorem duplicates_not_merged_counterexample:
  "map fr_card_id
     (create_final_recommendations (aggregate_manager_results duplicate_results) duplicate_results)
   = [''travel_001'', ''travel_001'']"
  by (simp add: create_final_recommendations_def aggregate_manager_results_def
      duplicate_results_def result_with_def final_of_def sample_card_def
      calculate_overall_score_def boost_for_def)

theorem pool_and_final_entries_witness:
  "duplicate_results \<noteq> []
   \<and> length (aggregate_manager_results duplicate_results) = 2
   \<and> length (create_final_recommendations (aggregate_manager_results duplicate_results)
        duplicate_results) = 2
   \<and> length (filter (\<lambda>f. fr_card_id f = ''travel_001'')
        (create_final_recommendations (aggregate_manager_results duplicate_results)
           duplicate_results)) = 2"
  using pool_and_final_entries[of duplicate_results]
  by (simp add: duplicate_results_def result_with_def sample_card_def
      aggregate_manager_results_def)

lemma confidence_is_mean:
  "confidence_of finals = mean_of_first_three (map overall_score finals)"
  by (simp add: confidence_of_def mean_of_first_three_def Let_def take_map min_def)

lemma create_final_sorted:
  "sorted_wrt (\<lambda>a b. overall_score b \<le> overall_score a) (create_final_recommendations cards results)"
  by (simp add: create_final_recommendations_def sort_desc_sorted)

lemma summary_final_cases:
  "final_recommendations (summary_execute st) = final_recommendations st
   \<or> final_recommendations (summary_execute st) = Some empty_summary
   \<or> final_recommendations (summary_execute st) =
       Some \<lparr>total_cards_analyzed = length (aggregate_manager_results (manager_results st)),
             sr_final_recommendations =
               create_final_recommendations (aggregate_manager_results (manager_results st))
                 (manager_results st),
             top_recommendation =
               (case create_final_recommendations (aggregate_manager_results (manager_results st))
                       (manager_results st) of [] \<Rightarrow> None | best # rest \<Rightarrow> Some best),
             confidence_score =
               confidence_of (create_final_recommendations
                 (aggregate_manager_results (manager_results st)) (manager_results st))\<rparr>"
  by (simp add: summary_execute_def enter_node_def record_error_def Let_def split: sum.splits)

text \<open>
  Claim C9. A final answer written by the aggregation stage lists its recommendations in
  non-increasing order of aggregate score, and its confidence is the mean of the first
  three aggregate scores (of all of them when there are fewer), or 0 for the empty list.
\<close>

theorem final_answer_sorted_with_mean_confidence:
  assumes "final_recommendations st = None"
      and "final_recommendations (summary_execute st) = Some res"
  shows "sorted_wrt (\<lambda>a b. overall_score b \<le> overall_score a) (sr_final_recommendations res)
         \<and> confidence_score res
             = mean_of_first_three (map overall_score (sr_final_recommendations res))"
  using assms summary_final_cases[of st]
  by (auto simp: empty_summary_def mean_of_first_three_def create_final_sorted confidence_is_mean)

theorem final_answer_sorted_with_mean_confidence_witness:
  "final_recommendations summary_sample_state = None
   \<and> map overall_score (sr_final_recommendations
        (the (final_recommendations (summary_execute summary_sample_state)))) = [7 / 10, 7 / 10]
   \<and> confidence_score (the (final_recommendations (summary_execute summary_sample_state)))
       = 7 / 10"
proof -
  let ?finals = "create_final_recommendations (aggregate_manager_results duplicate_results)
                   duplicate_results"
  have pool: "aggregate_manager_results duplicate_results = [sample_card, sample_card]"
    by (simp add: aggregate_manager_results_def duplicate_results_def result_with_def)
  have sc: "calculate_overall_score sample_card duplicate_results = 7 / 10"
    by (simp add: calculate_overall_score_def duplicate_results_def result_with_def
        boost_for_def sample_card_def)
  have scores: "map overall_score ?finals = [7 / 10, 7 / 10]"
    by (simp add: pool create_final_recommendations_def final_of_def sc)
  have none: "final_recommendations summary_sample_state = None"
    by (simp add: summary_sample_state_def create_initial_state_def)
  have ne: "?finals \<noteq> []" using scores by auto
  have dne: "duplicate_results \<noteq> []" by (simp add: duplicate_results_def)
  have run: "final_recommendations (summary_execute summary_sample_state)
        = Some \<lparr>total_cards_analyzed = 2, sr_final_recommendations = ?finals,
                top_recommendation = (case ?finals of [] \<Rightarrow> None | best # rest \<Rightarrow> Some best),
                confidence_score = confidence_of ?finals\<rparr>"
    using ne dne
    by (simp add: summary_execute_def summary_sample_state_def create_initial_state_def
        enter_node_def Let_def pool generate_summary_text_def)
  show ?thesis
    using final_answer_sorted_with_mean_confidence[OF none run] none scores
    by (simp add: run mean_of_first_three_def)
qed

section \<open>The pipeline\<close>

lemma extractor_empty:
  "extractor_node env (create_initial_state sid [])
     = Inl (ValueError ''No user query provided'', extraction_failed sid)"
  by (simp add: extractor_node_def extractor_body_def create_initial_state_def
      extraction_failed_def record_error_def Let_def)

lemma run_graph_empty:
  "run_graph env (create_initial_state sid []) = Inl (ValueError ''No user query provided'')"
  by (simp add: run_graph_def extractor_empty)

text \<open>
  Claim C4, the run of the code on the empty query: the extractor records the error,
  names the error handler as next node and then re-raises the \<^verbatim>\<open>ValueError\<close>, so the
  run ends with that exception: no later stage runs and no final answer is written.
\<close>

theorem empty_query_run_aborts:
  "extractor_node env (create_initial_state sid [])
     = Inl (ValueError ''No user query provided'', extraction_failed sid)
   \<and> next_nodes (extraction_failed sid) = [''error_handler'']
   \<and> run_graph env (create_initial_state sid []) = Inl (ValueError ''No user query provided'')"
  by (simp add: extractor_empty run_graph_empty) (simp add: extraction_failed_def)

lemma extractor_ok:
  assumes "q \<noteq> []"
      and "extract_request env q (consent_of (create_initial_state sid q))
             (locale_of (create_initial_state sid q)) = Inr req"
  shows "extractor_node env (create_initial_state sid q) = Inr (extracted_state sid q req)"
proof -
  have "extractor_body env ((create_initial_state sid q)\<lparr>current_node := Some ''extractor''\<rparr>)
          = Inr (extracted_state sid q req)"
    using assms
    by (simp add: extractor_body_def ebind_def extracted_state_def create_initial_state_def)
  then show ?thesis
    by (simp add: extractor_node_def Let_def)
qed

lemma plan_head:
  "determine_manager_categories req \<noteq> []
   \<and> hd (determine_manager_categories req) \<noteq> ''error_handler''
   \<and> hd (determine_manager_categories req) \<noteq> END
   \<and> (\<exists>k. manager_of_node (hd (determine_manager_categories req)) = Some k
           \<and> manager_type k = hd (determine_manager_categories req))"
  unfolding determine_manager_categories_def Let_def END_def
  by (cases "any_in [''miles'', ''travel'', ''airline'', ''hotel''] (goals req)";
      cases "any_in [''cashback'', ''cash'', ''rewards'', ''money''] (goals req)";
      cases "any_in [''business'', ''corporate'', ''expense'', ''employee''] (goals req)";
      cases "any_in [''student'', ''building_credit'', ''first'', ''college''] (goals req)")
     simp_all

lemma router_extracted:
  "router_node (extracted_state sid q req)
     = (extracted_state sid q req)
         \<lparr>current_node := Some ''router'', completed_nodes := [''extractor'', ''router''],
          fanout_plan := Some (determine_manager_categories req),
          next_nodes := determine_manager_categories req\<rparr>"
  using plan_head[of req]
  by (simp add: router_node_def enter_node_def extracted_state_def Let_def)

lemma router_extracted_fields:
  "completed_nodes (router_node (extracted_state sid q req)) = [''extractor'', ''router'']"
  "fanout_plan (router_node (extracted_state sid q req))
     = Some (determine_manager_categories req)"
  "manager_results (router_node (extracted_state sid q req)) = []"
  "request_of (router_node (extracted_state sid q req)) = Some req"
  "errors (router_node (extracted_state sid q req)) = []"
  unfolding router_extracted
  by (simp_all add: extracted_state_def create_initial_state_def)

lemma routed_target:
  "should_continue_to_managers (router_node (extracted_state sid q req))
     = hd (determine_manager_categories req)"
proof -
  have e: "errors (router_node (extracted_state sid q req)) = []"
    unfolding router_extracted by (simp add: extracted_state_def create_initial_state_def)
  have f: "fanout_plan (router_node (extracted_state sid q req))
             = Some (determine_manager_categories req)"
    unfolding router_extracted by simp
  show ?thesis
    using plan_head[of req]
    by (cases "determine_manager_categories req")
       (simp_all add: should_continue_to_managers_def e f)
qed

lemma run_graph_routed:
  assumes "q \<noteq> []"
      and "extract_request env q (consent_of (create_initial_state sid q))
             (locale_of (create_initial_state sid q)) = Inr req"
      and "manager_of_node (hd (determine_manager_categories req)) = Some k"
  shows "run_graph env (create_initial_state sid q)
           = Inr (after_manager env
                    (manager_execute k env (router_node (extracted_state sid q req))))"
proof -
  have r: "should_continue_to_router (extracted_state sid q req) = ''router''"
    by (simp add: should_continue_to_router_def extracted_state_def create_initial_state_def)
  have f: "from_router env (extracted_state sid q req)
             = Inr (after_manager env
                      (manager_execute k env (router_node (extracted_state sid q req))))"
    using plan_head[of req] assms(3)
    by (simp add: from_router_def Let_def routed_target)
  show ?thesis
    by (simp add: run_graph_def extractor_ok[OF assms(1,2)] Let_def r f)
qed

lemma manager_body_frame:
  "manager_body kind env st = Inr st2 \<Longrightarrow>
   \<exists>res. st2 = st\<lparr>manager_results := dict_set (manager_results st) (manager_type kind) res,
                   next_nodes := [''summary'']\<rparr>"
  by (auto simp: manager_body_def analyze_request_def rank_cards_def ebind_def Let_def
      split: option.splits sum.splits)

lemma manager_execute_frame:
  "completed_nodes (manager_execute kind env st) = completed_nodes st @ [manager_type kind]
   \<and> fanout_plan (manager_execute kind env st) = fanout_plan st
   \<and> (manager_results (manager_execute kind env st) = manager_results st
      \<or> (\<exists>res. manager_results (manager_execute kind env st)
                  = dict_set (manager_results st) (manager_type kind) res))"
proof (cases "manager_body kind env (enter_node (manager_type kind) st)")
  case (Inl e)
  show ?thesis
    by (simp add: manager_execute_Inl[OF Inl] record_error_def enter_node_def)
next
  case (Inr st2)
  from manager_body_frame[OF Inr] obtain res where
    eq: "st2 = (enter_node (manager_type kind) st)
             \<lparr>manager_results :=
                dict_set (manager_results (enter_node (manager_type kind) st))
                  (manager_type kind) res,
              next_nodes := [''summary'']\<rparr>"
    by blast
  have c: "completed_nodes st2 = completed_nodes st @ [manager_type kind]"
    by (simp add: eq enter_node_def)
  have f: "fanout_plan st2 = fanout_plan st"
    by (simp add: eq enter_node_def)
  have m: "manager_results st2 = dict_set (manager_results st) (manager_type kind) res"
    by (simp add: eq enter_node_def)
  show ?thesis
    unfolding manager_execute_Inr[OF Inr] using c f m by blast
qed

lemma add_warnings_frame:
  "completed_nodes (add_warnings ws st) = completed_nodes st
   \<and> manager_results (add_warnings ws st) = manager_results st
   \<and> fanout_plan (add_warnings ws st) = fanout_plan st
   \<and> request_of (add_warnings ws st) = request_of st"
  unfolding add_warnings_def
  by (induction ws arbitrary: st) (simp_all add: record_error_def)

lemma online_search_frame:
  "completed_nodes (online_search_execute env st) = completed_nodes st @ [''online_search'']
   \<and> manager_results (online_search_execute env st) = manager_results st
   \<and> fanout_plan (online_search_execute env st) = fanout_plan st"
  by (simp add: online_search_execute_def enter_node_def record_error_def Let_def
      split: option.splits)

lemma policy_validation_frame:
  "completed_nodes (policy_validation_execute env st) = completed_nodes st @ [''policy_validation'']
   \<and> manager_results (policy_validation_execute env st) = manager_results st
   \<and> fanout_plan (policy_validation_execute env st) = fanout_plan st"
  by (simp add: policy_validation_execute_def enter_node_def record_error_def Let_def
      add_warnings_frame split: option.splits)

lemma summary_frame:
  "completed_nodes (summary_execute st) = completed_nodes st @ [''summary'']
   \<and> manager_results (summary_execute st) = manager_results st
   \<and> fanout_plan (summary_execute st) = fanout_plan st"
  by (simp add: summary_execute_def enter_node_def record_error_def Let_def split: sum.splits)

lemma after_manager_frame:
  "completed_nodes (after_manager env st)
     = completed_nodes st @ [''online_search'', ''policy_validation'', ''summary'']
   \<and> manager_results (after_manager env st) = manager_results st
   \<and> fanout_plan (after_manager env st) = fanout_plan st"
  by (simp add: after_manager_def summary_frame policy_validation_frame online_search_frame)

lemma routed_run_trace:
  assumes "q \<noteq> []"
      and "extract_request env q (consent_of (create_initial_state sid q))
             (locale_of (create_initial_state sid q)) = Inr req"
  shows "\<exists>st'. run_graph env (create_initial_state sid q) = Inr st'
           \<and> fanout_plan st' = Some (determine_manager_categories req)
           \<and> completed_nodes st'
               = [''extractor'', ''router'', hd (determine_manager_categories req),
                  ''online_search'', ''policy_validation'', ''summary'']
           \<and> set (result_keys st') \<subseteq> {hd (determine_manager_categories req)}"
proof -
  from plan_head[of req] obtain k where
    k: "manager_of_node (hd (determine_manager_categories req)) = Some k" and
    kt: "manager_type k = hd (determine_manager_categories req)"
    by blast
  let ?st2 = "router_node (extracted_state sid q req)"
  let ?st3 = "manager_execute k env ?st2"
  have st2: "completed_nodes ?st2 = [''extractor'', ''router'']"
            "fanout_plan ?st2 = Some (determine_manager_categories req)"
            "manager_results ?st2 = []"
    by (simp_all add: router_extracted_fields)
  have keys: "set (map fst (manager_results ?st3)) \<subseteq> {manager_type k}"
    using manager_execute_frame[of k env ?st2] by (auto simp: st2)
  have "completed_nodes (after_manager env ?st3)
          = [''extractor'', ''router'', manager_type k,
             ''online_search'', ''policy_validation'', ''summary'']"
    using manager_execute_frame[of k env ?st2] by (simp add: after_manager_frame st2)
  moreover have "fanout_plan (after_manager env ?st3) = Some (determine_manager_categories req)"
    using manager_execute_frame[of k env ?st2] by (simp add: after_manager_frame st2)
  moreover have "set (result_keys (after_manager env ?st3)) \<subseteq> {manager_type k}"
    using keys by (simp add: result_keys_def after_manager_frame)
  ultimately show ?thesis
    using run_graph_routed[OF assms k] by (simp add: kt)
qed

text \<open>
  Claim C5, as the code behaves: after a successful extraction on a fresh session the
  router stores the whole plan, but the conditional edge runs the first planned handler
  only; the nodes run in the order extractor, router, that handler, online search, policy
  validation, summary, and the result map read by the summary has no key other than that
  handler's.
\<close>

theorem only_first_planned_handler_runs:
  assumes "q \<noteq> []"
      and "extract_request env q (consent_of (create_initial_state sid q))
             (locale_of (create_initial_state sid q)) = Inr req"
  shows "\<exists>st'. run_graph env (create_initial_state sid q) = Inr st'
           \<and> fanout_plan st' = Some (determine_manager_categories req)
           \<and> completed_nodes st'
               = [''extractor'', ''router'', hd (determine_manager_categories req),
                  ''online_search'', ''policy_validation'', ''summary'']
           \<and> set (result_keys st') \<subseteq> {hd (determine_manager_categories req)}"
  using routed_run_trace[OF assms] .

lemma miles_cashback_plan:
  "determine_manager_categories miles_cashback_request = [''travel_manager'', ''cashback_manager'']"
  by (simp add: determine_manager_categories_def any_in_def miles_cashback_request_def
      no_goal_request_def)

lemma empty_catalog_extract:
  "extract_request empty_catalog_env q c l = Inr miles_cashback_request"
  by (simp add: empty_catalog_env_def offline_env_def)

lemma empty_catalog_travel_keys:
  "manager_results st = [] \<Longrightarrow> request_of st = Some req \<Longrightarrow>
   result_keys (manager_execute Travel empty_catalog_env st) = [''travel_manager'']"
proof -
  assume a: "manager_results st = []" "request_of st = Some req"
  have cat: "search_catalog empty_catalog_env c = []" for c
    by (simp add: search_catalog_def empty_catalog_env_def offline_env_def)
  have "manager_body Travel empty_catalog_env (enter_node (manager_type Travel) st)
          = Inr ((enter_node (manager_type Travel) st)
                   \<lparr>manager_results :=
                      [(''travel_manager'',
                        \<lparr>mr_manager_type = ''travel_manager'', recommendations = [],
                         total_cards_found = 0, best_match = None\<rparr>)],
                    next_nodes := [''summary'']\<rparr>)"
    using a
    by (simp add: manager_body_def analyze_request_def enter_node_def cat rank_cards_def
        ebind_def Let_def)
  then show ?thesis
    by (simp add: manager_execute_Inr result_keys_def)
qed

text \<open>
  The plan travel, cashback: the cashback handler never runs and the result map holds
  the travel key alone.
\<close>

theorem fan_out_counterexample:
  "map_sum id fanout_plan
     (run_graph empty_catalog_env (create_initial_state ''session_1'' ''miles and cashback''))
     = Inr (Some [''travel_manager'', ''cashback_manager''])
   \<and> map_sum id completed_nodes
       (run_graph empty_catalog_env (create_initial_state ''session_1'' ''miles and cashback''))
     = Inr [''extractor'', ''router'', ''travel_manager'', ''online_search'',
            ''policy_validation'', ''summary'']
   \<and> map_sum id result_keys
       (run_graph empty_catalog_env (create_initial_state ''session_1'' ''miles and cashback''))
     = Inr [''travel_manager'']"
proof -
  let ?q = "''miles and cashback''"
  let ?st2 = "router_node (extracted_state ''session_1'' ?q miles_cashback_request)"
  have k: "manager_of_node (hd (determine_manager_categories miles_cashback_request))
             = Some Travel"
    by (simp add: miles_cashback_plan)
  have run: "run_graph empty_catalog_env (create_initial_state ''session_1'' ?q)
      = Inr (after_manager empty_catalog_env (manager_execute Travel empty_catalog_env ?st2))"
    by (rule run_graph_routed[OF _ empty_catalog_extract k]) simp
  have st2: "completed_nodes ?st2 = [''extractor'', ''router'']"
            "fanout_plan ?st2 = Some [''travel_manager'', ''cashback_manager'']"
            "manager_results ?st2 = []"
            "request_of ?st2 = Some miles_cashback_request"
    by (simp_all add: router_extracted_fields miles_cashback_plan)
  have keys: "result_keys (manager_execute Travel empty_catalog_env ?st2) = [''travel_manager'']"
    by (rule empty_catalog_travel_keys[OF st2(3) st2(4)])
  show ?thesis
    using manager_execute_frame[of Travel empty_catalog_env ?st2] keys
    by (simp add: run after_manager_frame st2 result_keys_def)
qed

theorem only_first_planned_handler_runs_witness:
  "''miles and cashback'' \<noteq> []
   \<and> extract_request empty_catalog_env ''miles and cashback''
        (consent_of (create_initial_state ''session_1'' ''miles and cashback''))
        (locale_of (create_initial_state ''session_1'' ''miles and cashback''))
       = Inr miles_cashback_request
   \<and> hd (determine_manager_categories miles_cashback_request) = ''travel_manager''
   \<and> (\<exists>st'. run_graph empty_catalog_env (create_initial_state ''session_1'' ''miles and cashback'')
               = Inr st'
            \<and> completed_nodes st'
                = [''extractor'', ''router'', ''travel_manager'', ''online_search'',
                   ''policy_validation'', ''summary''])"
proof -
  have q: "''miles and cashback'' \<noteq> []" by simp
  show ?thesis
    using only_first_planned_handler_runs[OF q empty_catalog_extract, of "''session_1''"]
      empty_catalog_extract
    by (auto simp: miles_cashback_plan)
qed

end
